theory Spec2Isabelle
  imports Main "HOL-Library.Multiset"
begin

section \<open>Values, documents and the normalized stores\<close>

text \<open>
  The handlers of this backend talk to a document store through a schema library. A stored
  document is a list of named values; an identifier of the store (an ObjectId) is kept in
  its canonical hexadecimal form.
\<close>

type_synonym oid = string

datatype bson =
    BNull
  | BBool bool
  | BNum int
  | BStr string
  | BOid oid
  | BDate int
  | BArr "bson list"
  | BDoc "(string \<times> bson) list"

type_synonym doc = "(string \<times> bson) list"

text \<open>
  Modelled from the spec: the User schema (\<open>user.model.js\<close> is not among the sources). Its
  attributes are those of the data model: id, lowercase username, email, fullName, hashed
  password, avatar, optional coverImage, optional refreshToken and the ordered watchHistory
  list of Video ids.
\<close>

record user =
  user_id :: oid
  username :: string
  email :: string
  fullName :: string
  password :: string
  avatar :: string
  coverImage :: "string option"
  refreshToken :: "string option"
  watchHistory :: "oid list"

text \<open>
  The Subscription schema of \<open>subcription.model.js\<close>: two ObjectId references, neither of
  them required, and the two timestamps the schema option adds. A reference that was never
  supplied is not stored, which is \<open>None\<close> here.
\<close>

record subscription =
  subscription_id :: oid
  subscriber :: "oid option"
  channel :: "oid option"
  subscribedAt :: int
  updatedAt :: int

text \<open>
  Modelled from the spec: the Video schema (\<open>video.model.js\<close> is not among the sources):
  id, owner, title, description, fileURL, the views counter and createdAt.
\<close>

record video =
  video_id :: oid
  owner :: oid
  title :: string
  description :: string
  fileURL :: string
  views :: int
  createdAt :: int

text \<open>
  Modelled from the spec: the Like schema (\<open>like.model.js\<close> is not among the sources): a
  generic resource id, the tag of the resource kind and the liking user.
\<close>

datatype like_type = Video | Comment | Tweet

record like =
  like_id :: oid
  resource :: oid
  resourceType :: like_type
  likedBy :: oid

text \<open>
  The four collections, and the order in which the store yields the documents of a join.
  That order is the store's own: it depends on the plan the store chooses for the join, and
  no handler asks for one. \<open>lookupRank\<close> stands for that choice: joined documents come by
  ascending rank, and documents of equal rank in stored order.
\<close>

record store =
  users :: "user list"
  subscriptions :: "subscription list"
  videos :: "video list"
  likes :: "like list"
  lookupRank :: "doc \<Rightarrow> int"

subsection \<open>Documents as the store holds them\<close>

definition optional_field :: "string \<Rightarrow> bson option \<Rightarrow> doc" where
  "optional_field k v = (case v of None \<Rightarrow> [] | Some x \<Rightarrow> [(k, x)])"

definition user_doc :: "user \<Rightarrow> doc" where
  "user_doc u =
     [(''_id'', BOid (user_id u)),
      (''username'', BStr (username u)),
      (''email'', BStr (email u)),
      (''fullName'', BStr (fullName u)),
      (''password'', BStr (password u)),
      (''avatar'', BStr (avatar u))]
     @ optional_field ''coverImage'' (map_option BStr (coverImage u))
     @ optional_field ''refreshToken'' (map_option BStr (refreshToken u))
     @ [(''watchHistory'', BArr (map BOid (watchHistory u)))]"

definition subscription_doc :: "subscription \<Rightarrow> doc" where
  "subscription_doc s =
     [(''_id'', BOid (subscription_id s))]
     @ optional_field ''subscriber'' (map_option BOid (subscriber s))
     @ optional_field ''channel'' (map_option BOid (channel s))
     @ [(''createdAt'', BDate (subscribedAt s)), (''updatedAt'', BDate (updatedAt s))]"

definition video_doc :: "video \<Rightarrow> doc" where
  "video_doc v =
     [(''_id'', BOid (video_id v)),
      (''owner'', BOid (owner v)),
      (''title'', BStr (title v)),
      (''description'', BStr (description v)),
      (''fileURL'', BStr (fileURL v)),
      (''views'', BNum (views v)),
      (''createdAt'', BDate (createdAt v))]"

fun like_type_name :: "like_type \<Rightarrow> string" where
  "like_type_name Video = ''video''"
| "like_type_name Comment = ''comment''"
| "like_type_name Tweet = ''tweet''"

definition like_doc :: "like \<Rightarrow> doc" where
  "like_doc l =
     [(''_id'', BOid (like_id l)),
      (''resource'', BOid (resource l)),
      (''type'', BStr (like_type_name (resourceType l))),
      (''likedBy'', BOid (likedBy l))]"

section \<open>Errors, responses and the trace of store calls\<close>

datatype error =
    ApiError int string
  | TypeError string
  | BSONError string
  | MongoServerError string

text \<open>
  \<open>new ApiResponse(a, b, c)\<close> keeps its three arguments by position (the class is not
  among the sources; the handlers only construct it). \<open>res.status(n).json(body)\<close> is the
  response.
\<close>

datatype api_response = ApiResponse int bson bson

datatype response = Response int api_response

datatype store_call = StoreCall string string

text \<open>
  An awaited computation yields the store calls it issued, in order, and either the error
  it threw or its value. The store itself is assumed to answer: a failing connection is
  outside this model.
\<close>

type_synonym 'a io = "store_call list \<times> (error + 'a)"

definition ret :: "'a \<Rightarrow> 'a io" where
  "ret x = ([], Inr x)"

definition throw :: "error \<Rightarrow> 'a io" where
  "throw e = ([], Inl e)"

definition await :: "'a io \<Rightarrow> ('a \<Rightarrow> 'b io) \<Rightarrow> 'b io" where
  "await m f =
     (case m of
        (l, Inl e) \<Rightarrow> (l, Inl e)
      | (l, Inr x) \<Rightarrow> (case f x of (l', r) \<Rightarrow> (l @ l', r)))"

definition store_query :: "store_call \<Rightarrow> (error + 'a) \<Rightarrow> 'a io" where
  "store_query c r = ([c], r)"

section \<open>asyncHandler\<close>

text \<open>
  \<open>asyncHandler\<close> is an arrow function with a block body. The block holds one expression
  statement, the wrapper arrow function, and no \<open>return\<close>. Calling a function runs its
  statements up to the first \<open>return\<close>; without one the call evaluates to \<open>undefined\<close>.
\<close>

datatype 'f js_value = Undefined | Function 'f

datatype 'f statement = ExpressionStatement "'f js_value" | ReturnStatement "'f js_value"

fun call_block :: "'f statement list \<Rightarrow> 'f js_value" where
  "call_block [] = Undefined"
| "call_block (ReturnStatement v # rest) = v"
| "call_block (ExpressionStatement v # rest) = call_block rest"

text \<open>
  The wrapper the body builds: \<open>Promise.resolve(requestHandler(req, res, next))\<close> with a
  \<open>catch\<close> that hands the error to \<open>next\<close>.
\<close>

definition wrapper :: "('req \<Rightarrow> 'r io) \<Rightarrow> 'req \<Rightarrow> (error \<Rightarrow> 'r io) \<Rightarrow> 'r io" where
  "wrapper requestHandler req next =
     (case requestHandler req of
        (l, Inl e) \<Rightarrow> (case next e of (l', r) \<Rightarrow> (l @ l', r))
      | (l, Inr x) \<Rightarrow> (l, Inr x))"

definition asyncHandler ::
  "('req \<Rightarrow> 'r io) \<Rightarrow> ('req \<Rightarrow> (error \<Rightarrow> 'r io) \<Rightarrow> 'r io) js_value" where
  "asyncHandler requestHandler =
     call_block [ExpressionStatement (Function (wrapper requestHandler))]"

section \<open>Strings of the request\<close>

text \<open>
  \<open>String.prototype.trim\<close> and \<open>String.prototype.toLowerCase\<close> belong to the language. Which
  characters the one strips and the other maps is taken as given: the handlers are stated
  for every pair of such functions. The empty string is the only string that \<open>!s\<close> holds
  of.
\<close>

record runtime =
  trim :: "string \<Rightarrow> string"
  toLowerCase :: "string \<Rightarrow> string"

text \<open>What \<open>!x\<close> and \<open>x || y\<close> test on a value.\<close>

fun truthy :: "bson \<Rightarrow> bool" where
  "truthy BNull = False"
| "truthy (BBool b) = b"
| "truthy (BNum n) = (n \<noteq> 0)"
| "truthy (BStr s) = (s \<noteq> [])"
| "truthy v = True"

section \<open>The schema library\<close>

text \<open>
  The library is a collaborator outside the repository; what the handlers need of it is
  taken as given. \<open>isValidObjectId\<close> decides whether a string has the shape of an
  identifier and \<open>toObjectId\<close> is the identifier such a string denotes. Two settings differ
  between releases of the library and are left open: \<open>strictQuery\<close> (a filter path that the
  schema does not declare is dropped from the filter when it is set, and sent as written
  otherwise) and \<open>objectIdRequiresNew\<close> (whether \<open>Types.ObjectId\<close> is a class, which
  cannot be called without \<open>new\<close>).
\<close>

record mongoose =
  isValidObjectId :: "string \<Rightarrow> bool"
  toObjectId :: "string \<Rightarrow> oid"
  strictQuery :: bool
  objectIdRequiresNew :: bool

datatype schema_type = TObjectId | TString | TNumber | TDate

type_synonym schema = "(string \<times> schema_type) list"

text \<open>The paths the Subscription schema declares, with the timestamps of its option.\<close>

definition subscriptionSchema :: schema where
  "subscriptionSchema =
     [(''_id'', TObjectId), (''subscriber'', TObjectId), (''channel'', TObjectId),
      (''createdAt'', TDate), (''updatedAt'', TDate)]"

text \<open>
  Modelled from the spec: the paths of the Video schema (\<open>video.model.js\<close> is not among the
  sources). The data model gives a video an \<open>owner\<close>; it names no \<open>channel\<close>.
\<close>

definition videoSchema :: schema where
  "videoSchema =
     [(''_id'', TObjectId), (''owner'', TObjectId), (''title'', TString),
      (''description'', TString), (''fileURL'', TString), (''views'', TNumber),
      (''createdAt'', TDate)]"

text \<open>
  Modelled from the spec: the paths of the Like schema (\<open>like.model.js\<close> is not among the
  sources).
\<close>

definition likeSchema :: schema where
  "likeSchema =
     [(''_id'', TObjectId), (''resource'', TObjectId), (''type'', TString),
      (''likedBy'', TObjectId)]"

subsection \<open>Query filters\<close>

text \<open>
  A filter names paths and, for each, a value to equal or a list to be in (\<open>$in\<close>). A
  stored array satisfies a condition when one of its elements does; a path the document
  lacks compares as null.
\<close>

datatype cond = Eq bson | In "bson list"

type_synonym query_filter = "(string \<times> cond) list"

fun cond_holds :: "cond \<Rightarrow> bson option \<Rightarrow> bool" where
  "cond_holds (Eq v) None = (v = BNull)"
| "cond_holds (Eq v) (Some (BArr xs)) = (v = BArr xs \<or> v \<in> set xs)"
| "cond_holds (Eq v) (Some x) = (x = v)"
| "cond_holds (In vs) None = (BNull \<in> set vs)"
| "cond_holds (In vs) (Some (BArr xs)) = (BArr xs \<in> set vs \<or> (\<exists>x \<in> set xs. x \<in> set vs))"
| "cond_holds (In vs) (Some x) = (x \<in> set vs)"

definition matches :: "query_filter \<Rightarrow> doc \<Rightarrow> bool" where
  "matches f d = list_all (\<lambda>(k, c). cond_holds c (map_of d k)) f"

text \<open>
  Before a model sends a filter, the library casts each value to the type its path has in
  the schema (a string on an ObjectId path becomes the identifier; every call site has
  validated the string before), and treats an undeclared path as \<open>strictQuery\<close> says.
\<close>

fun cast_value :: "mongoose \<Rightarrow> schema_type \<Rightarrow> bson \<Rightarrow> bson" where
  "cast_value env TObjectId (BStr s) = BOid (toObjectId env s)"
| "cast_value env t v = v"

fun cast_cond :: "mongoose \<Rightarrow> schema_type \<Rightarrow> cond \<Rightarrow> cond" where
  "cast_cond env t (Eq v) = Eq (cast_value env t v)"
| "cast_cond env t (In vs) = In (map (cast_value env t) vs)"

fun castFilter :: "mongoose \<Rightarrow> schema \<Rightarrow> query_filter \<Rightarrow> query_filter" where
  "castFilter env sch [] = []"
| "castFilter env sch ((k, c) # f) =
     (case map_of sch k of
        Some t \<Rightarrow> (k, cast_cond env t c) # castFilter env sch f
      | None \<Rightarrow> if strictQuery env then castFilter env sch f else (k, c) # castFilter env sch f)"

definition model_find :: "mongoose \<Rightarrow> schema \<Rightarrow> doc list \<Rightarrow> query_filter \<Rightarrow> doc list" where
  "model_find env sch coll f = filter (matches (castFilter env sch f)) coll"

definition distinct_values :: "string \<Rightarrow> doc list \<Rightarrow> bson list" where
  "distinct_values k ds = remdups (concat (map (\<lambda>d. case map_of d k of None \<Rightarrow> [] | Some v \<Rightarrow> [v]) ds))"

text \<open>The model operations the handlers await.\<close>

definition Video_countDocuments :: "mongoose \<Rightarrow> store \<Rightarrow> query_filter \<Rightarrow> int io" where
  "Video_countDocuments env st f =
     store_query (StoreCall ''Video'' ''countDocuments'')
       (Inr (int (length (model_find env videoSchema (map video_doc (videos st)) f))))"

definition Subscription_countDocuments :: "mongoose \<Rightarrow> store \<Rightarrow> query_filter \<Rightarrow> int io" where
  "Subscription_countDocuments env st f =
     store_query (StoreCall ''Subscription'' ''countDocuments'')
       (Inr (int (length (model_find env subscriptionSchema (map subscription_doc (subscriptions st)) f))))"

definition Like_countDocuments :: "mongoose \<Rightarrow> store \<Rightarrow> query_filter \<Rightarrow> int io" where
  "Like_countDocuments env st f =
     store_query (StoreCall ''Like'' ''countDocuments'')
       (Inr (int (length (model_find env likeSchema (map like_doc (likes st)) f))))"

definition Video_find_distinct :: "mongoose \<Rightarrow> store \<Rightarrow> query_filter \<Rightarrow> string \<Rightarrow> bson list io" where
  "Video_find_distinct env st f k =
     store_query (StoreCall ''Video'' ''distinct'')
       (Inr (distinct_values k (model_find env videoSchema (map video_doc (videos st)) f)))"

text \<open>
  A find query with \<open>skip\<close>, \<open>limit\<close> and \<open>sort\<close>: however the builder calls are chained, the
  store sorts first, then skips, then limits. The sort is on one date path, descending;
  documents with equal dates keep their stored order here. A negative skip is refused by
  the store, a limit of zero is no limit and a negative limit counts by its magnitude.
\<close>

definition date_key :: "string \<Rightarrow> doc \<Rightarrow> int" where
  "date_key k d = (case map_of d k of Some (BDate t) \<Rightarrow> t | _ \<Rightarrow> 0)"

definition sort_descending :: "string \<Rightarrow> doc list \<Rightarrow> doc list" where
  "sort_descending k ds = sort_key (\<lambda>d. - date_key k d) ds"

definition apply_limit :: "int \<Rightarrow> doc list \<Rightarrow> doc list" where
  "apply_limit n ds = (if n = 0 then ds else take (nat \<bar>n\<bar>) ds)"

definition Video_find_skip_limit_sort ::
  "mongoose \<Rightarrow> store \<Rightarrow> query_filter \<Rightarrow> int \<Rightarrow> int \<Rightarrow> string \<Rightarrow> doc list io" where
  "Video_find_skip_limit_sort env st f skip limit sortPath =
     store_query (StoreCall ''Video'' ''find'')
       (if skip < 0 then Inl (MongoServerError ''Skip value must be non-negative'')
        else Inr (apply_limit limit (drop (nat skip)
               (sort_descending sortPath (model_find env videoSchema (map video_doc (videos st)) f)))))"

text \<open>
  \<open>new mongoose.Types.ObjectId(s)\<close>: every release allows the call with \<open>new\<close>. The
  constructor throws on a value that does not have the shape of an identifier;
  \<open>isValidObjectId\<close> is the library's test of what the constructor accepts.
\<close>

definition new_ObjectId :: "mongoose \<Rightarrow> string \<Rightarrow> oid io" where
  "new_ObjectId env s =
     (if isValidObjectId env s then ret (toObjectId env s)
      else throw (BSONError ''input must be a 24 character hex string, 12 byte Uint8Array, or an integer''))"

text \<open>\<open>mongoose.Types.ObjectId(s)\<close>, called without \<open>new\<close>.\<close>

definition Types_ObjectId :: "mongoose \<Rightarrow> string \<Rightarrow> oid io" where
  "Types_ObjectId env s =
     (if objectIdRequiresNew env
      then throw (TypeError ''Class constructor ObjectId cannot be invoked without new'')
      else ret (toObjectId env s))"

section \<open>Aggregation pipelines\<close>

text \<open>
  A pipeline stage maps the documents that reach it to the documents it passes on, or
  fails. An expression is evaluated on one document and yields a value, no value (the
  path is missing), or an error.
\<close>

type_synonym stage = "doc list \<Rightarrow> error + doc list"

type_synonym expr = "doc \<Rightarrow> error + bson option"

fun pipeline :: "stage list \<Rightarrow> stage" where
  "pipeline [] ds = Inr ds"
| "pipeline (s # ss) ds = (case s ds of Inl e \<Rightarrow> Inl e | Inr ds' \<Rightarrow> pipeline ss ds')"

fun each_doc :: "('a \<Rightarrow> error + 'b) \<Rightarrow> 'a list \<Rightarrow> error + 'b list" where
  "each_doc f [] = Inr []"
| "each_doc f (x # xs) =
     (case f x of
        Inl e \<Rightarrow> Inl e
      | Inr y \<Rightarrow> (case each_doc f xs of Inl e \<Rightarrow> Inl e | Inr ys \<Rightarrow> Inr (y # ys)))"

text \<open>
  Writing a field: a value replaces the field where it stands, or is appended when the
  document has no such field; no value removes the field.
\<close>

fun set_field :: "string \<Rightarrow> bson option \<Rightarrow> doc \<Rightarrow> doc" where
  "set_field k None d = filter (\<lambda>(k', v'). k' \<noteq> k) d"
| "set_field k (Some v) d =
     (if map_of d k = None then d @ [(k, v)]
      else map (\<lambda>(k', v'). if k' = k then (k', v) else (k', v')) d)"

definition collection :: "store \<Rightarrow> string \<Rightarrow> doc list" where
  "collection st name =
     (if name = ''users'' then map user_doc (users st)
      else if name = ''subscriptions'' then map subscription_doc (subscriptions st)
      else if name = ''videos'' then map video_doc (videos st)
      else if name = ''likes'' then map like_doc (likes st)
      else [])"

subsection \<open>Stages\<close>

definition match_stage :: "query_filter \<Rightarrow> stage" where
  "match_stage f ds = Inr (filter (matches f) ds)"

text \<open>
  \<open>$lookup\<close> with a local and a foreign field: each input document receives, under the
  \<open>as\<close> name, the array of the documents of the \<open>from\<close> collection whose foreign field
  equals its local field, after the sub-pipeline has run over them. A missing field joins as
  null and an array joins by its elements. The stage orders nothing: the joined documents
  stand in the order in which the store yields them.
\<close>

definition join_order :: "store \<Rightarrow> doc list \<Rightarrow> doc list" where
  "join_order st ds = sort_key (lookupRank st) ds"

fun join_values :: "bson option \<Rightarrow> bson list" where
  "join_values None = [BNull]"
| "join_values (Some (BArr xs)) = xs"
| "join_values (Some v) = [v]"

definition joins :: "bson option \<Rightarrow> bson option \<Rightarrow> bool" where
  "joins l f = (\<exists>x \<in> set (join_values l). x \<in> set (join_values f))"

definition lookup_stage ::
  "store \<Rightarrow> string \<Rightarrow> string \<Rightarrow> string \<Rightarrow> string \<Rightarrow> stage \<Rightarrow> stage" where
  "lookup_stage st fromName localField foreignField asField sub ds =
     each_doc
       (\<lambda>d. case sub (join_order st
                         (filter (\<lambda>f. joins (map_of d localField) (map_of f foreignField))
                            (collection st fromName))) of
               Inl e \<Rightarrow> Inl e
             | Inr js \<Rightarrow> Inr (set_field asField (Some (BArr (map BDoc js))) d))
       ds"

text \<open>
  \<open>$addFields\<close>: every expression is evaluated on the incoming document, then the fields
  are written.
\<close>

fun add_fields :: "(string \<times> expr) list \<Rightarrow> doc \<Rightarrow> doc \<Rightarrow> error + doc" where
  "add_fields [] d acc = Inr acc"
| "add_fields ((k, e) # r) d acc =
     (case e d of Inl err \<Rightarrow> Inl err | Inr v \<Rightarrow> add_fields r d (set_field k v acc))"

definition addFields_stage :: "(string \<times> expr) list \<Rightarrow> stage" where
  "addFields_stage fs ds = each_doc (\<lambda>d. add_fields fs d d) ds"

text \<open>
  \<open>$project\<close> with an inclusion list keeps the listed fields and, since the list does not
  switch it off, the \<open>_id\<close>.
\<close>

definition project_stage :: "string list \<Rightarrow> stage" where
  "project_stage fs ds = Inr (map (filter (\<lambda>(k, v). k = ''_id'' \<or> k \<in> set fs)) ds)"

text \<open>
  \<open>$group\<close> with \<open>_id: null\<close> and one \<open>$sum\<close> accumulator: all documents form one group; no
  input gives no group at all. Values that are not numbers add nothing.
\<close>

definition number_at :: "string \<Rightarrow> doc \<Rightarrow> int" where
  "number_at k d = (case map_of d k of Some (BNum n) \<Rightarrow> n | _ \<Rightarrow> 0)"

definition group_all_sum :: "string \<Rightarrow> string \<Rightarrow> stage" where
  "group_all_sum out k ds =
     (if ds = [] then Inr []
      else Inr [[(''_id'', BNull), (out, BNum (sum_list (map (number_at k) ds)))]])"

subsection \<open>Expressions\<close>

definition literal :: "bson \<Rightarrow> expr" where
  "literal v d = Inr (Some v)"

definition field_path :: "string \<Rightarrow> expr" where
  "field_path k d = Inr (map_of d k)"

fun element_field :: "string \<Rightarrow> bson \<Rightarrow> bson list" where
  "element_field k (BDoc e) = (case map_of e k of None \<Rightarrow> [] | Some v \<Rightarrow> [v])"
| "element_field k v = []"

definition nested_path :: "string \<Rightarrow> string \<Rightarrow> expr" where
  "nested_path a b d =
     Inr (case map_of d a of
            Some (BArr xs) \<Rightarrow> Some (BArr (concat (map (element_field b) xs)))
          | Some (BDoc e) \<Rightarrow> map_of e b
          | _ \<Rightarrow> None)"

definition size_op :: "expr \<Rightarrow> expr" where
  "size_op e d =
     (case e d of
        Inl err \<Rightarrow> Inl err
      | Inr (Some (BArr xs)) \<Rightarrow> Inr (Some (BNum (int (length xs))))
      | Inr _ \<Rightarrow> Inl (MongoServerError ''The argument to $size must be an array''))"

definition in_op :: "expr \<Rightarrow> expr \<Rightarrow> expr" where
  "in_op x arr d =
     (case x d of
        Inl err \<Rightarrow> Inl err
      | Inr xv \<Rightarrow>
          (case arr d of
             Inl err \<Rightarrow> Inl err
           | Inr (Some (BArr xs)) \<Rightarrow>
               Inr (Some (BBool ((case xv of None \<Rightarrow> BNull | Some v \<Rightarrow> v) \<in> set xs)))
           | Inr _ \<Rightarrow> Inl (MongoServerError ''$in requires an array as a second argument'')))"

fun holds :: "bson option \<Rightarrow> bool" where
  "holds None = False"
| "holds (Some BNull) = False"
| "holds (Some (BBool b)) = b"
| "holds (Some (BNum n)) = (n \<noteq> 0)"
| "holds (Some v) = True"

definition cond_op :: "expr \<Rightarrow> expr \<Rightarrow> expr \<Rightarrow> expr" where
  "cond_op c t e d =
     (case c d of Inl err \<Rightarrow> Inl err | Inr cv \<Rightarrow> if holds cv then t d else e d)"

definition first_op :: "expr \<Rightarrow> expr" where
  "first_op e d =
     (case e d of
        Inl err \<Rightarrow> Inl err
      | Inr None \<Rightarrow> Inr (Some BNull)
      | Inr (Some BNull) \<Rightarrow> Inr (Some BNull)
      | Inr (Some (BArr [])) \<Rightarrow> Inr None
      | Inr (Some (BArr (x # xs))) \<Rightarrow> Inr (Some x)
      | Inr _ \<Rightarrow> Inl (MongoServerError ''$first requires an array''))"

text \<open>
  \<open>Model.aggregate\<close> sends the pipeline as written: the library neither casts its values
  nor drops its paths.
\<close>

definition User_aggregate :: "store \<Rightarrow> stage list \<Rightarrow> doc list io" where
  "User_aggregate st stages =
     store_query (StoreCall ''User'' ''aggregate'') (pipeline stages (collection st ''users''))"

definition Video_aggregate :: "store \<Rightarrow> stage list \<Rightarrow> doc list io" where
  "Video_aggregate st stages =
     store_query (StoreCall ''Video'' ''aggregate'') (pipeline stages (collection st ''videos''))"

section \<open>The request handlers\<close>

text \<open>
  \<open>xs[0]?.k\<close> and \<open>x || y\<close>.
\<close>

definition first_field :: "doc list \<Rightarrow> string \<Rightarrow> bson option" where
  "first_field ds k = (case ds of [] \<Rightarrow> None | d # rest \<Rightarrow> map_of d k)"

definition or_else :: "bson option \<Rightarrow> bson \<Rightarrow> bson" where
  "or_else x y = (case x of None \<Rightarrow> y | Some v \<Rightarrow> if truthy v then v else y)"

subsection \<open>Channel statistics and channel videos\<close>

text \<open>
  The function handed to \<open>asyncHandler\<close> for \<open>getChannelStats\<close>. \<open>channelId\<close> is the route
  parameter, a string.
\<close>

definition getChannelStats_handler :: "mongoose \<Rightarrow> store \<Rightarrow> string \<Rightarrow> response io" where
  "getChannelStats_handler env st channelId =
     (if \<not> isValidObjectId env channelId then throw (ApiError 400 ''Invalid channel ID'')
      else
        await (Video_countDocuments env st [(''channel'', Eq (BStr channelId))]) (\<lambda>totalVideos.
        await (Subscription_countDocuments env st [(''channel'', Eq (BStr channelId))]) (\<lambda>totalSubscribers.
        await (Video_find_distinct env st [(''channel'', Eq (BStr channelId))] ''_id'') (\<lambda>ids.
        await (Like_countDocuments env st [(''resource'', In ids), (''type'', Eq (BStr ''video''))]) (\<lambda>totalLikes.
        await (Types_ObjectId env channelId) (\<lambda>channelOid.
        await (Video_aggregate st
                 [match_stage [(''channel'', Eq (BOid channelOid))],
                  group_all_sum ''totalViews'' ''views'']) (\<lambda>totalViews.
        ret (Response 200
               (ApiResponse 200 (BStr ''Channel stats fetched successfully'')
                  (BDoc [(''totalVideos'', BNum totalVideos),
                         (''totalSubscribers'', BNum totalSubscribers),
                         (''totalLikes'', BNum totalLikes),
                         (''totalViews'', or_else (first_field totalViews ''totalViews'') (BNum 0))]))))))))))"

text \<open>
  The function handed to \<open>asyncHandler\<close> for \<open>getChannelVideos\<close>. \<open>page\<close> and \<open>limit\<close> are
  the numbers the query parameters denote, absent when the query does not give them.
\<close>

definition getChannelVideos_handler ::
  "mongoose \<Rightarrow> store \<Rightarrow> string \<Rightarrow> int option \<Rightarrow> int option \<Rightarrow> response io" where
  "getChannelVideos_handler env st channelId pageParam limitParam =
     (let page = (case pageParam of None \<Rightarrow> 1 | Some p \<Rightarrow> p);
          limit = (case limitParam of None \<Rightarrow> 10 | Some l \<Rightarrow> l)
      in if \<not> isValidObjectId env channelId then throw (ApiError 400 ''Invalid channel ID'')
         else
           await (Video_find_skip_limit_sort env st [(''channel'', Eq (BStr channelId))]
                    ((page - 1) * limit) limit ''createdAt'') (\<lambda>videos.
           ret (Response 200
                  (ApiResponse 200 (BStr ''Channel videos fetched successfully'')
                     (BArr (map BDoc videos))))))"

subsection \<open>Channel profile and watch history\<close>

text \<open>
  The function handed to \<open>asyncHandler\<close> for \<open>getUserChannelProfile\<close>. \<open>usernameParam\<close>
  is \<open>req.params.username\<close> and \<open>viewer\<close> is \<open>req.user?._id\<close>, which the pipeline receives
  as null when there is no user.

  Modelled from the spec: the type of \<open>req.user._id\<close> (the middleware that sets \<open>req.user\<close>
  is not among the sources). The viewer is an optional User id, an identifier of the store.
\<close>

definition viewer_value :: "oid option \<Rightarrow> bson" where
  "viewer_value viewer = (case viewer of None \<Rightarrow> BNull | Some v \<Rightarrow> BOid v)"

definition channelProfile_pipeline ::
  "runtime \<Rightarrow> store \<Rightarrow> oid option \<Rightarrow> string \<Rightarrow> stage list" where
  "channelProfile_pipeline js st viewer name =
     [match_stage [(''username'', Eq (BStr (toLowerCase js name)))],
      lookup_stage st ''subscriptions'' ''_id'' ''channel'' ''subscribers'' Inr,
      lookup_stage st ''subscriptions'' ''_id'' ''subscriber'' ''subscribedTo'' Inr,
      addFields_stage
        [(''subscribersCount'', size_op (field_path ''subscribers'')),
         (''channelsSubscribedToCount'', size_op (field_path ''subscribedTo'')),
         (''isSubscribed'',
            cond_op (in_op (literal (viewer_value viewer)) (nested_path ''subscribers'' ''subscriber''))
              (literal (BBool True)) (literal (BBool False)))],
      project_stage
        [''fullName'', ''username'', ''avatar'', ''coverImage'', ''subscribersCount'',
         ''channelsSubscribedToCount'', ''isSubscribed'', ''email'']]"

definition getUserChannelProfile_handler ::
  "runtime \<Rightarrow> store \<Rightarrow> oid option \<Rightarrow> string option \<Rightarrow> response io" where
  "getUserChannelProfile_handler js st viewer usernameParam =
     (case usernameParam of
        None \<Rightarrow> throw (ApiError 400 ''Username is required to get Profile'')
      | Some name \<Rightarrow>
          if trim js name = [] then throw (ApiError 400 ''Username is required to get Profile'')
          else
            await (User_aggregate st (channelProfile_pipeline js st viewer name)) (\<lambda>channel.
            case channel of
              [] \<Rightarrow> throw (ApiError 404 ''Channel not found'')
            | c # rest \<Rightarrow>
                ret (Response 200
                       (ApiResponse 200 (BDoc c) (BStr ''User Channel Profile Fetched Successfully'')))))"

text \<open>
  The function handed to \<open>asyncHandler\<close> for \<open>getWatchHistory\<close>. \<open>userId\<close> is \<open>req.user._id\<close>
  of the authenticated request. Before the store is called, the pipeline literal builds the
  identifier to match with \<open>new mongoose.Types.ObjectId(req.user._id)\<close>, which throws when
  the value does not have the shape of an identifier.
\<close>

definition watchHistory_pipeline :: "store \<Rightarrow> oid \<Rightarrow> stage list" where
  "watchHistory_pipeline st matchId =
     [match_stage [(''_id'', Eq (BOid matchId))],
      lookup_stage st ''videos'' ''watchHistory'' ''_id'' ''watchHistory''
        (pipeline
           [lookup_stage st ''users'' ''owner'' ''_id'' ''owner''
              (pipeline [project_stage [''fullName'', ''username'', ''avatar'']]),
            addFields_stage [(''owner'', first_op (field_path ''owner''))]])]"

definition getWatchHistory_handler :: "mongoose \<Rightarrow> store \<Rightarrow> string \<Rightarrow> response io" where
  "getWatchHistory_handler env st userId =
     await (new_ObjectId env userId) (\<lambda>matchId.
     await (User_aggregate st (watchHistory_pipeline st matchId)) (\<lambda>user.
     ret (Response 200
            (ApiResponse 200 (or_else (first_field user ''watchHistory'') (BArr []))
               (BStr ''Watch History Fetched Successfully'')))))"

subsection \<open>What the modules export\<close>

text \<open>
  Each exported name is bound to \<open>asyncHandler\<close> applied to the function above. What an
  operation computes is stated below on the function itself; what the exported name is
  bound to is the subject of the section on the wrapper.
\<close>

definition getChannelStats where
  "getChannelStats env st = asyncHandler (getChannelStats_handler env st)"

definition getChannelVideos where
  "getChannelVideos env st =
     asyncHandler (\<lambda>(channelId, page, limit). getChannelVideos_handler env st channelId page limit)"

definition getUserChannelProfile where
  "getUserChannelProfile js st =
     asyncHandler (\<lambda>(viewer, username). getUserChannelProfile_handler js st viewer username)"

definition getWatchHistory where
  "getWatchHistory env st = asyncHandler (getWatchHistory_handler env st)"

section \<open>What the handlers compute, stated on the stores\<close>

text \<open>
  The owner sub-object of an enriched history video, the enriched video itself, and the
  channel profile record, written out on the typed records. The owner of a video is the
  user with the owner's id; should several users share the id, it is the one the store
  yields first.
\<close>

definition owner_projection :: "user \<Rightarrow> doc" where
  "owner_projection u =
     [(''_id'', BOid (user_id u)),
      (''username'', BStr (username u)),
      (''fullName'', BStr (fullName u)),
      (''avatar'', BStr (avatar u))]"

definition owner_of :: "store \<Rightarrow> video \<Rightarrow> user option" where
  "owner_of st v =
     (case sort_key (\<lambda>u. lookupRank st (user_doc u))
             (filter (\<lambda>u. user_id u = owner v) (users st)) of
        [] \<Rightarrow> None
      | u # rest \<Rightarrow> Some u)"

definition enriched_video :: "store \<Rightarrow> video \<Rightarrow> doc" where
  "enriched_video st v =
     [(''_id'', BOid (video_id v))]
     @ optional_field ''owner'' (map_option (BDoc \<circ> owner_projection) (owner_of st v))
     @ [(''title'', BStr (title v)),
        (''description'', BStr (description v)),
        (''fileURL'', BStr (fileURL v)),
        (''views'', BNum (views v)),
        (''createdAt'', BDate (createdAt v))]"

definition subscribers_of :: "store \<Rightarrow> oid \<Rightarrow> subscription list" where
  "subscribers_of st c = filter (\<lambda>s. channel s = Some c) (subscriptions st)"

definition subscribed_to :: "store \<Rightarrow> oid \<Rightarrow> subscription list" where
  "subscribed_to st c = filter (\<lambda>s. subscriber s = Some c) (subscriptions st)"

definition follows :: "store \<Rightarrow> oid option \<Rightarrow> oid \<Rightarrow> bool" where
  "follows st viewer c =
     (case viewer of
        None \<Rightarrow> False
      | Some v \<Rightarrow> list_ex (\<lambda>s. subscriber s = Some v) (subscribers_of st c))"

definition channel_profile :: "store \<Rightarrow> oid option \<Rightarrow> user \<Rightarrow> doc" where
  "channel_profile st viewer u =
     [(''_id'', BOid (user_id u)),
      (''username'', BStr (username u)),
      (''email'', BStr (email u)),
      (''fullName'', BStr (fullName u)),
      (''avatar'', BStr (avatar u))]
     @ optional_field ''coverImage'' (map_option BStr (coverImage u))
     @ [(''subscribersCount'', BNum (int (length (subscribers_of st (user_id u))))),
        (''channelsSubscribedToCount'', BNum (int (length (subscribed_to st (user_id u))))),
        (''isSubscribed'', BBool (follows st viewer (user_id u)))]"

definition owned_videos :: "store \<Rightarrow> oid \<Rightarrow> video list" where
  "owned_videos st c = filter (\<lambda>v. owner v = c) (videos st)"

definition field_names :: "doc \<Rightarrow> string list" where
  "field_names d = map fst d"

definition watched_videos :: "store \<Rightarrow> user \<Rightarrow> video list" where
  "watched_videos st u = filter (\<lambda>v. video_id v \<in> set (watchHistory u)) (videos st)"

definition yielded_videos :: "store \<Rightarrow> user \<Rightarrow> video list" where
  "yielded_videos st u = sort_key (\<lambda>v. lookupRank st (video_doc v)) (watched_videos st u)"

text \<open>
  The page of channel videos as the specification words it: the videos the channel owns,
  newest first, without the first \<open>(page - 1) * limit\<close>, at most \<open>limit\<close> of them.
\<close>

definition spec_channel_videos :: "store \<Rightarrow> oid \<Rightarrow> int \<Rightarrow> int \<Rightarrow> video list" where
  "spec_channel_videos st c page limit =
     take (nat limit) (drop (nat ((page - 1) * limit))
       (sort_key (\<lambda>v. - createdAt v) (owned_videos st c)))"

text \<open>
  The channel's likes as the specification words them: the Like records of type video
  whose resource is one of the videos the channel owns.
\<close>

definition spec_channel_likes :: "store \<Rightarrow> oid \<Rightarrow> like list" where
  "spec_channel_likes st c =
     filter (\<lambda>l. resourceType l = Video \<and> resource l \<in> set (map video_id (owned_videos st c)))
       (likes st)"

text \<open>Reading a handler's outcome: the second and the third argument of the response body.\<close>

definition second_argument :: "response io \<Rightarrow> bson option" where
  "second_argument r =
     (case snd r of Inl e \<Rightarrow> None | Inr (Response code (ApiResponse n a b)) \<Rightarrow> Some a)"

definition third_argument :: "response io \<Rightarrow> bson option" where
  "third_argument r =
     (case snd r of Inl e \<Rightarrow> None | Inr (Response code (ApiResponse n a b)) \<Rightarrow> Some b)"

fun documents_of :: "bson option \<Rightarrow> doc list" where
  "documents_of (Some (BArr xs)) = concat (map (\<lambda>x. case x of BDoc d \<Rightarrow> [d] | _ \<Rightarrow> []) xs)"
| "documents_of v = []"

fun field_of :: "bson option \<Rightarrow> string \<Rightarrow> bson option" where
  "field_of (Some (BDoc d)) k = map_of d k"
| "field_of v k = None"

fun fields_of :: "bson option \<Rightarrow> string list" where
  "fields_of (Some (BDoc d)) = field_names d"
| "fields_of v = []"

definition returned_ids :: "doc list \<Rightarrow> bson option list" where
  "returned_ids ds = map (\<lambda>d. map_of d ''_id'') ds"

definition owner_field_names :: "doc list \<Rightarrow> string list list" where
  "owner_field_names ds = map (\<lambda>d. fields_of (map_of d ''owner'')) ds"

section \<open>Example runtime, libraries and stores\<close>

text \<open>
  The examples use strings of ASCII letters, digits and blanks only. On those, trimming
  strips the white space and line terminators of the ASCII range at both ends, and
  lower-casing maps the letters A to Z.
\<close>

definition asciiWhiteSpace :: "char \<Rightarrow> bool" where
  "asciiWhiteSpace c = ((of_char c :: nat) \<in> {9, 10, 11, 12, 13, 32})"

definition asciiTrim :: "string \<Rightarrow> string" where
  "asciiTrim s = rev (dropWhile asciiWhiteSpace (rev (dropWhile asciiWhiteSpace s)))"

definition asciiLowerChar :: "char \<Rightarrow> char" where
  "asciiLowerChar c =
     (let n = (of_char c :: nat) in if 65 \<le> n \<and> n \<le> 90 then char_of (n + 32) else c)"

definition asciiLowerCase :: "string \<Rightarrow> string" where
  "asciiLowerCase s = map asciiLowerChar s"

definition asciiRuntime :: runtime where
  "asciiRuntime = \<lparr>trim = asciiTrim, toLowerCase = asciiLowerCase\<rparr>"

definition isHexDigit :: "char \<Rightarrow> bool" where
  "isHexDigit c =
     (let n = (of_char c :: nat)
      in (48 \<le> n \<and> n \<le> 57) \<or> (65 \<le> n \<and> n \<le> 70) \<or> (97 \<le> n \<and> n \<le> 102))"

definition hexShape :: "string \<Rightarrow> bool" where
  "hexShape s = (length s = 24 \<and> list_all isHexDigit s)"

text \<open>
  Three settings of the library, on identifiers of 24 hexadecimal digits: filters sent as
  written and a callable \<open>ObjectId\<close>; undeclared filter paths dropped; \<open>ObjectId\<close> a class.
\<close>

definition lenientLibrary :: mongoose where
  "lenientLibrary =
     \<lparr>isValidObjectId = hexShape, toObjectId = asciiLowerCase,
      strictQuery = False, objectIdRequiresNew = False\<rparr>"

definition strictLibrary :: mongoose where
  "strictLibrary =
     \<lparr>isValidObjectId = hexShape, toObjectId = asciiLowerCase,
      strictQuery = True, objectIdRequiresNew = False\<rparr>"

definition classLibrary :: mongoose where
  "classLibrary =
     \<lparr>isValidObjectId = hexShape, toObjectId = asciiLowerCase,
      strictQuery = False, objectIdRequiresNew = True\<rparr>"

definition hexId :: "char \<Rightarrow> oid" where
  "hexId c = replicate 24 c"

definition exampleUser :: "char \<Rightarrow> string \<Rightarrow> oid list \<Rightarrow> user" where
  "exampleUser c name history =
     \<lparr>user_id = hexId c, username = name, email = name @ ''@example.com'',
      fullName = name, password = ''hash'', avatar = ''avatar.png'',
      coverImage = None, refreshToken = None, watchHistory = history\<rparr>"

definition exampleVideo :: "char \<Rightarrow> char \<Rightarrow> int \<Rightarrow> int \<Rightarrow> video" where
  "exampleVideo c w n t =
     \<lparr>video_id = hexId c, owner = hexId w, title = ''title'', description = ''text'',
      fileURL = ''file'', views = n, createdAt = t\<rparr>"

definition exampleSubscription :: "char \<Rightarrow> char \<Rightarrow> char \<Rightarrow> subscription" where
  "exampleSubscription c s ch =
     \<lparr>subscription_id = hexId c, subscriber = Some (hexId s), channel = Some (hexId ch),
      subscribedAt = 0, updatedAt = 0\<rparr>"

text \<open>
  Channel \<open>c\<close> owns one video with five views, liked once; channel \<open>d\<close> owns another,
  liked once too; \<open>d\<close> follows \<open>c\<close>.
\<close>

definition statsStore :: store where
  "statsStore =
     \<lparr>users = [exampleUser CHR ''c'' ''carol'' [], exampleUser CHR ''d'' ''dave'' []],
      subscriptions = [exampleSubscription CHR ''5'' CHR ''d'' CHR ''c''],
      videos = [exampleVideo CHR ''1'' CHR ''c'' 5 1, exampleVideo CHR ''2'' CHR ''d'' 7 2],
      likes =
        [\<lparr>like_id = hexId CHR ''8'', resource = hexId CHR ''1'',
          resourceType = Video, likedBy = hexId CHR ''d''\<rparr>,
         \<lparr>like_id = hexId CHR ''9'', resource = hexId CHR ''2'',
          resourceType = Video, likedBy = hexId CHR ''c''\<rparr>],
      lookupRank = (\<lambda>d. 0)\<rparr>"

text \<open>
  Channel \<open>c\<close> owns exactly seven videos, created at times 1 to 7; channel \<open>d\<close> owns one,
  created at time 8.
\<close>

definition pagingStore :: store where
  "pagingStore =
     \<lparr>users = [exampleUser CHR ''c'' ''carol'' [], exampleUser CHR ''d'' ''dave'' []],
      subscriptions = [],
      videos =
        [exampleVideo CHR ''1'' CHR ''c'' 0 1, exampleVideo CHR ''2'' CHR ''c'' 0 2,
         exampleVideo CHR ''3'' CHR ''c'' 0 3, exampleVideo CHR ''4'' CHR ''c'' 0 4,
         exampleVideo CHR ''5'' CHR ''c'' 0 5, exampleVideo CHR ''6'' CHR ''c'' 0 6,
         exampleVideo CHR ''7'' CHR ''c'' 0 7, exampleVideo CHR ''8'' CHR ''d'' 0 8],
      likes = [],
      lookupRank = (\<lambda>d. 0)\<rparr>"

text \<open>
  User \<open>a\<close> watched video 3 and then video 1, in this order of the list; the videos
  collection holds video 1 before video 3. Video 1 belongs to \<open>c\<close>, video 3 to \<open>d\<close>, and
  video 4 to \<open>f\<close>, a user the store does not know. As the other example stores do, this
  store yields joined documents in stored order.
\<close>

definition historyStore :: store where
  "historyStore =
     \<lparr>users =
        [exampleUser CHR ''a'' ''alice'' [hexId CHR ''3'', hexId CHR ''1''],
         exampleUser CHR ''c'' ''carol'' [],
         exampleUser CHR ''d'' ''dave'' [],
         exampleUser CHR ''e'' ''erin'' [hexId CHR ''4'', hexId CHR ''1'']],
      subscriptions = [exampleSubscription CHR ''5'' CHR ''a'' CHR ''c''],
      videos =
        [exampleVideo CHR ''1'' CHR ''c'' 5 1, exampleVideo CHR ''3'' CHR ''d'' 7 2,
         exampleVideo CHR ''4'' CHR ''f'' 1 3],
      likes = [],
      lookupRank = (\<lambda>d. 0)\<rparr>"

text \<open>
  The same collections under another plan of the store: the join yields video 3 before the
  other videos.
\<close>

definition historyStoreOtherPlan :: store where
  "historyStoreOtherPlan =
     historyStore\<lparr>lookupRank :=
       (\<lambda>d. if map_of d ''_id'' = Some (BOid (hexId CHR ''3'')) then 0 else 1)\<rparr>"

section \<open>Lemmas on documents and stages\<close>

lemma each_doc_map:
  "(\<And>x. x \<in> set xs \<Longrightarrow> f (g x) = Inr (h x)) \<Longrightarrow> each_doc f (map g xs) = Inr (map h xs)"
  by (induction xs) auto

lemma find_filter_conv:
  "find P xs = (case filter P xs of [] \<Rightarrow> None | x # rest \<Rightarrow> Some x)"
  by (induction xs) auto

lemma user_doc_fields:
  "map_of (user_doc u) ''_id'' = Some (BOid (user_id u))"
  "map_of (user_doc u) ''username'' = Some (BStr (username u))"
  "map_of (user_doc u) ''watchHistory'' = Some (BArr (map BOid (watchHistory u)))"
  "map_of (user_doc u) ''subscribers'' = None"
  "map_of (user_doc u) ''subscribedTo'' = None"
  "map_of (user_doc u) ''subscribersCount'' = None"
  "map_of (user_doc u) ''channelsSubscribedToCount'' = None"
  "map_of (user_doc u) ''isSubscribed'' = None"
  by (simp_all add: user_doc_def optional_field_def split: option.splits)

lemma subscription_doc_fields:
  "map_of (subscription_doc s) ''channel'' = map_option BOid (channel s)"
  "map_of (subscription_doc s) ''subscriber'' = map_option BOid (subscriber s)"
  by (simp_all add: subscription_doc_def optional_field_def split: option.splits)

lemma video_doc_fields:
  "map_of (video_doc v) ''_id'' = Some (BOid (video_id v))"
  "map_of (video_doc v) ''owner'' = Some (BOid (owner v))"
  "map_of (video_doc v) ''channel'' = None"
  by (simp_all add: video_doc_def)

lemma joins_oid: "joins (Some (BOid a)) (map_option BOid c) = (c = Some a)"
  by (cases c) (auto simp: joins_def)

lemma joins_oid_oid: "joins (Some (BOid a)) (Some (BOid b)) = (b = a)"
  by (auto simp: joins_def)

lemma joins_history: "joins (Some (BArr (map BOid wh))) (Some (BOid b)) = (b \<in> set wh)"
  by (auto simp: joins_def)

text \<open>The order of a join is a rearrangement: it neither adds nor drops a document.\<close>

lemma insort_key_map:
  "insort_key k (f x) (map f xs) = map f (insort_key (\<lambda>y. k (f y)) x xs)"
  by (induction xs) auto

lemma sort_key_map: "sort_key k (map f xs) = map f (sort_key (\<lambda>y. k (f y)) xs)"
  by (induction xs) (simp_all add: insort_key_map)

lemma join_order_map:
  "join_order st (map f xs) = map f (sort_key (\<lambda>x. lookupRank st (f x)) xs)"
  by (simp add: join_order_def sort_key_map)

lemma sort_key_Nil_iff: "(sort_key k xs = []) = (xs = [])"
  using length_sort [of k xs] by (cases xs) auto

lemma lookup_stage_map:
  assumes "\<And>x. x \<in> set xs \<Longrightarrow>
             sub (join_order st (filter (\<lambda>f. joins (map_of (g x) l) (map_of f fk))
                                   (collection st nm))) = Inr (js x)"
  shows "lookup_stage st nm l fk a sub (map g xs)
           = Inr (map (\<lambda>x. set_field a (Some (BArr (map BDoc (js x)))) (g x)) xs)"
  unfolding lookup_stage_def
  by (rule each_doc_map) (simp add: assms del: set_field.simps)

lemma map_of_replaced:
  "map_of d k \<noteq> None \<Longrightarrow>
     map_of (map (\<lambda>(k', v'). if k' = k then (k', v) else (k', v')) d) k = Some v"
  by (induction d) (auto split: if_splits)

lemma map_of_set_field: "map_of (set_field k (Some v) d) k = Some v"
  by (simp add: map_of_replaced map_add_def)

lemma documents_of_docs: "documents_of (Some (BArr (map (BDoc \<circ> f) xs))) = map f xs"
  by (induction xs) auto

section \<open>The channel profile\<close>

lemma joined_subscribers:
  "join_order st (filter (\<lambda>f. joins (Some (BOid a)) (map_of f ''channel''))
                    (collection st ''subscriptions''))
     = map subscription_doc
         (sort_key (\<lambda>s. lookupRank st (subscription_doc s)) (subscribers_of st a))"
  by (simp add: collection_def filter_map comp_def subscription_doc_fields joins_oid
      subscribers_of_def join_order_map)

lemma joined_subscribedTo:
  "join_order st (filter (\<lambda>f. joins (Some (BOid a)) (map_of f ''subscriber''))
                    (collection st ''subscriptions''))
     = map subscription_doc
         (sort_key (\<lambda>s. lookupRank st (subscription_doc s)) (subscribed_to st a))"
  by (simp add: collection_def filter_map comp_def subscription_doc_fields joins_oid
      subscribed_to_def join_order_map)

lemma viewer_among_subscribers:
  "(\<exists>s \<in> set ss. Some (viewer_value viewer) = map_of (subscription_doc s) ''subscriber'')
     = (case viewer of None \<Rightarrow> False | Some v \<Rightarrow> list_ex (\<lambda>s. subscriber s = Some v) ss)"
  by (auto simp: subscription_doc_fields viewer_value_def list_ex_iff map_option_case
      split: option.splits)

lemma isSubscribed_value:
  assumes "map_of d ''subscribers'' = Some (BArr (map BDoc (map subscription_doc ss)))"
  shows "cond_op (in_op (literal (viewer_value viewer)) (nested_path ''subscribers'' ''subscriber''))
           (literal (BBool True)) (literal (BBool False)) d
         = Inr (Some (BBool (case viewer of None \<Rightarrow> False
                             | Some v \<Rightarrow> list_ex (\<lambda>s. subscriber s = Some v) ss)))"
proof -
  have "(viewer_value viewer
           \<in> set (concat (map (element_field ''subscriber'') (map BDoc (map subscription_doc ss)))))
          = (\<exists>s \<in> set ss. Some (viewer_value viewer) = map_of (subscription_doc s) ''subscriber'')"
    by (auto split: option.splits)
  then show ?thesis
    using assms
    by (simp add: cond_op_def in_op_def literal_def nested_path_def viewer_among_subscribers
        del: set_concat)
qed

lemma list_ex_sort_key: "list_ex P (sort_key k xs) = list_ex P xs"
  by (simp add: list_ex_iff)

text \<open>
  The pipeline of \<open>getUserChannelProfile\<close>, stage by stage: it yields the profile record of
  every user whose stored username is the lower-cased parameter, in the order of the
  users collection. The order of the two joins does not reach the record: only the sizes of
  the joined arrays and a membership in one of them do.
\<close>

lemma channelProfile_pipeline_result:
  "pipeline (channelProfile_pipeline js st viewer name) (collection st ''users'')
     = Inr (map (channel_profile st viewer)
              (filter (\<lambda>u. username u = toLowerCase js name) (users st)))"
proof -
  let ?us = "filter (\<lambda>u. username u = toLowerCase js name) (users st)"
  let ?ord = "sort_key (\<lambda>s. lookupRank st (subscription_doc s))"
  let ?S = "\<lambda>u. BArr (map BDoc (map subscription_doc (?ord (subscribers_of st (user_id u)))))"
  let ?T = "\<lambda>u. BArr (map BDoc (map subscription_doc (?ord (subscribed_to st (user_id u)))))"
  let ?d1 = "\<lambda>u. user_doc u @ [(''subscribers'', ?S u)]"
  let ?d2 = "\<lambda>u. user_doc u @ [(''subscribers'', ?S u), (''subscribedTo'', ?T u)]"
  let ?d3 = "\<lambda>u. user_doc u @ [(''subscribers'', ?S u), (''subscribedTo'', ?T u),
     (''subscribersCount'', BNum (int (length (subscribers_of st (user_id u))))),
     (''channelsSubscribedToCount'', BNum (int (length (subscribed_to st (user_id u))))),
     (''isSubscribed'', BBool (follows st viewer (user_id u)))]"
  have s1: "match_stage [(''username'', Eq (BStr (toLowerCase js name)))] (collection st ''users'')
              = Inr (map user_doc ?us)"
    by (simp add: match_stage_def collection_def filter_map comp_def matches_def user_doc_fields)
  have s2: "lookup_stage st ''subscriptions'' ''_id'' ''channel'' ''subscribers'' Inr
              (map user_doc ?us) = Inr (map ?d1 ?us)"
    unfolding lookup_stage_def
    by (rule each_doc_map) (simp add: user_doc_fields joined_subscribers)
  have s3: "lookup_stage st ''subscriptions'' ''_id'' ''subscriber'' ''subscribedTo'' Inr
              (map ?d1 ?us) = Inr (map ?d2 ?us)"
    unfolding lookup_stage_def
    by (rule each_doc_map) (simp add: user_doc_fields joined_subscribedTo map_add_def)
  have s4: "addFields_stage
        [(''subscribersCount'', size_op (field_path ''subscribers'')),
         (''channelsSubscribedToCount'', size_op (field_path ''subscribedTo'')),
         (''isSubscribed'',
            cond_op (in_op (literal (viewer_value viewer)) (nested_path ''subscribers'' ''subscriber''))
              (literal (BBool True)) (literal (BBool False)))]
         (map ?d2 ?us) = Inr (map ?d3 ?us)"
    unfolding addFields_stage_def
    by (rule each_doc_map)
       (simp add: user_doc_fields map_add_def size_op_def field_path_def isSubscribed_value
          follows_def list_ex_sort_key cong: option.case_cong)
  have s5: "project_stage
        [''fullName'', ''username'', ''avatar'', ''coverImage'', ''subscribersCount'',
         ''channelsSubscribedToCount'', ''isSubscribed'', ''email'']
         (map ?d3 ?us) = Inr (map (channel_profile st viewer) ?us)"
    by (simp add: project_stage_def channel_profile_def user_doc_def optional_field_def
        split: option.splits)
  show ?thesis
    by (simp only: channelProfile_pipeline_def pipeline.simps s1 s2 s3 s4 s5 sum.case)
qed

lemma getUserChannelProfile_handler_result:
  assumes "trim js name \<noteq> []"
  shows "getUserChannelProfile_handler js st viewer (Some name)
     = (case find (\<lambda>u. username u = toLowerCase js name) (users st) of
          None \<Rightarrow> ([StoreCall ''User'' ''aggregate''], Inl (ApiError 404 ''Channel not found''))
        | Some u \<Rightarrow>
            ([StoreCall ''User'' ''aggregate''],
             Inr (Response 200
                    (ApiResponse 200 (BDoc (channel_profile st viewer u))
                       (BStr ''User Channel Profile Fetched Successfully'')))))"
  using assms
  by (simp add: getUserChannelProfile_handler_def User_aggregate_def store_query_def await_def
      channelProfile_pipeline_result find_filter_conv throw_def ret_def split: list.splits)

text \<open>
  Claim C5. For an existing channel user (the first user whose username is the lower-cased
  parameter), the profile that \<open>getUserChannelProfile\<close> sends has \<open>subscribersCount\<close> equal to
  the number of Subscription records whose channel is this user,
  \<open>channelsSubscribedToCount\<close> equal to the number of Subscription records whose subscriber
  is this user, and \<open>isSubscribed\<close> true exactly when the viewer's id is the subscriber of
  one of the channel's subscription records; with no viewer it is false.
\<close>

theorem channel_profile_counts:
  assumes "trim js name \<noteq> []"
    and "find (\<lambda>u. username u = toLowerCase js name) (users st) = Some u"
  shows "field_of (second_argument (getUserChannelProfile_handler js st viewer (Some name)))
             ''subscribersCount''
           = Some (BNum (int (length (filter (\<lambda>s. channel s = Some (user_id u)) (subscriptions st)))))
         \<and> field_of (second_argument (getUserChannelProfile_handler js st viewer (Some name)))
             ''channelsSubscribedToCount''
           = Some (BNum (int (length (filter (\<lambda>s. subscriber s = Some (user_id u)) (subscriptions st)))))
         \<and> field_of (second_argument (getUserChannelProfile_handler js st viewer (Some name)))
             ''isSubscribed''
           = Some (BBool (case viewer of
                            None \<Rightarrow> False
                          | Some v \<Rightarrow> (\<exists>s \<in> set (subscriptions st).
                                        channel s = Some (user_id u) \<and> subscriber s = Some v)))"
  using assms
  by (auto simp: getUserChannelProfile_handler_result second_argument_def channel_profile_def
      optional_field_def map_add_def subscribers_of_def subscribed_to_def follows_def list_ex_iff
      split: option.splits)

theorem channel_profile_counts_witness:
  "trim asciiRuntime ''Carol'' \<noteq> []
   \<and> find (\<lambda>u. username u = toLowerCase asciiRuntime ''Carol'') (users historyStore)
       = Some (exampleUser CHR ''c'' ''carol'' [])
   \<and> field_of (second_argument
        (getUserChannelProfile_handler asciiRuntime historyStore (Some (hexId CHR ''a'')) (Some ''Carol'')))
        ''subscribersCount'' = Some (BNum 1)
   \<and> field_of (second_argument
        (getUserChannelProfile_handler asciiRuntime historyStore (Some (hexId CHR ''a'')) (Some ''Carol'')))
        ''channelsSubscribedToCount'' = Some (BNum 0)
   \<and> field_of (second_argument
        (getUserChannelProfile_handler asciiRuntime historyStore (Some (hexId CHR ''a'')) (Some ''Carol'')))
        ''isSubscribed'' = Some (BBool True)
   \<and> field_of (second_argument
        (getUserChannelProfile_handler asciiRuntime historyStore (Some (hexId CHR ''d'')) (Some ''Carol'')))
        ''isSubscribed'' = Some (BBool False)
   \<and> field_of (second_argument
        (getUserChannelProfile_handler asciiRuntime historyStore None (Some ''Carol'')))
        ''isSubscribed'' = Some (BBool False)"
proof -
  let ?carol = "exampleUser CHR ''c'' ''carol'' []"
  have h1: "trim asciiRuntime ''Carol'' \<noteq> []"
    by code_simp
  have h2: "find (\<lambda>u. username u = toLowerCase asciiRuntime ''Carol'') (users historyStore)
              = Some ?carol"
    by code_simp
  have n1: "int (length (filter (\<lambda>s. channel s = Some (user_id ?carol)) (subscriptions historyStore))) = 1"
    by code_simp
  have n2: "int (length (filter (\<lambda>s. subscriber s = Some (user_id ?carol)) (subscriptions historyStore))) = 0"
    by code_simp
  have b1: "(\<exists>s \<in> set (subscriptions historyStore).
               channel s = Some (user_id ?carol) \<and> subscriber s = Some (hexId CHR ''a'')) = True"
    by code_simp
  have b2: "(\<exists>s \<in> set (subscriptions historyStore).
               channel s = Some (user_id ?carol) \<and> subscriber s = Some (hexId CHR ''d'')) = False"
    by code_simp
  note t = channel_profile_counts [OF h1 h2]
  from t [of "Some (hexId CHR ''a'')"] t [of "Some (hexId CHR ''d'')"] t [of None]
    h1 h2 n1 n2 b1 b2
  show ?thesis
    by simp
qed

text \<open>
  Claim C6, as amended. The profile that \<open>getUserChannelProfile\<close> sends contains only fields
  among \<open>_id\<close>, fullName, username, avatar, coverImage, subscribersCount,
  channelsSubscribedToCount, isSubscribed and email; the \<open>_id\<close> of the user is always among
  them, and password, refreshToken and watchHistory never are.
\<close>

theorem channel_profile_fields:
  assumes "trim js name \<noteq> []"
    and "find (\<lambda>u. username u = toLowerCase js name) (users st) = Some u"
  shows "set (fields_of (second_argument (getUserChannelProfile_handler js st viewer (Some name))))
           \<subseteq> {''_id'', ''fullName'', ''username'', ''avatar'', ''coverImage'', ''subscribersCount'',
              ''channelsSubscribedToCount'', ''isSubscribed'', ''email''}
         \<and> ''_id'' \<in> set (fields_of (second_argument (getUserChannelProfile_handler js st viewer (Some name))))
         \<and> ''password'' \<notin> set (fields_of (second_argument (getUserChannelProfile_handler js st viewer (Some name))))
         \<and> ''refreshToken'' \<notin> set (fields_of (second_argument (getUserChannelProfile_handler js st viewer (Some name))))
         \<and> ''watchHistory'' \<notin> set (fields_of (second_argument (getUserChannelProfile_handler js st viewer (Some name))))"
  using assms
  by (auto simp: getUserChannelProfile_handler_result second_argument_def channel_profile_def
      optional_field_def field_names_def split: option.splits)

theorem channel_profile_fields_witness:
  "trim asciiRuntime ''Carol'' \<noteq> []
   \<and> find (\<lambda>u. username u = toLowerCase asciiRuntime ''Carol'') (users historyStore)
       = Some (exampleUser CHR ''c'' ''carol'' [])
   \<and> set (fields_of (second_argument
        (getUserChannelProfile_handler asciiRuntime historyStore None (Some ''Carol''))))
       \<subseteq> {''_id'', ''fullName'', ''username'', ''avatar'', ''coverImage'', ''subscribersCount'',
          ''channelsSubscribedToCount'', ''isSubscribed'', ''email''}
   \<and> ''_id'' \<in> set (fields_of (second_argument
        (getUserChannelProfile_handler asciiRuntime historyStore None (Some ''Carol''))))
   \<and> ''password'' \<notin> set (fields_of (second_argument
        (getUserChannelProfile_handler asciiRuntime historyStore None (Some ''Carol''))))"
proof -
  have h1: "trim asciiRuntime ''Carol'' \<noteq> []"
    by code_simp
  have h2: "find (\<lambda>u. username u = toLowerCase asciiRuntime ''Carol'') (users historyStore)
              = Some (exampleUser CHR ''c'' ''carol'' [])"
    by code_simp
  note t = channel_profile_fields [OF h1 h2, of None]
  show ?thesis
    by (intro conjI h1 h2 t [THEN conjunct1] t [THEN conjunct2, THEN conjunct1]
        t [THEN conjunct2, THEN conjunct2, THEN conjunct1])
qed

text \<open>
  Claim C6, as stated, fails: the record sent for the channel \<open>carol\<close> carries the field
  \<open>_id\<close>, which is not one of the eight fields the claim allows. The projection lists its
  fields for inclusion and does not exclude \<open>_id\<close>.
\<close>

theorem channel_profile_fields_counterexample:
  "fields_of (second_argument
       (getUserChannelProfile_handler asciiRuntime historyStore None (Some ''carol'')))
     = [''_id'', ''username'', ''email'', ''fullName'', ''avatar'', ''subscribersCount'',
        ''channelsSubscribedToCount'', ''isSubscribed'']
   \<and> \<not> set (fields_of (second_argument
              (getUserChannelProfile_handler asciiRuntime historyStore None (Some ''carol''))))
         \<subseteq> {''fullName'', ''username'', ''avatar'', ''coverImage'', ''subscribersCount'',
            ''channelsSubscribedToCount'', ''isSubscribed'', ''email''}"
  by code_simp

text \<open>
  Claim C7. \<open>getUserChannelProfile\<close> fails with status 400, having issued no store call, when
  the username parameter is missing or what \<open>trim\<close> leaves of it is the empty string; it
  fails with status 404, after its one aggregate call, when no user has the lower-cased
  parameter as username. The 404 is an error, neither the 400 nor a successful response.
  This holds whatever the language's \<open>trim\<close> and \<open>toLowerCase\<close> do on each string.
\<close>

theorem channel_profile_rejections:
  "getUserChannelProfile_handler js st viewer None
     = ([], Inl (ApiError 400 ''Username is required to get Profile''))
   \<and> (trim js blank = [] \<longrightarrow>
        getUserChannelProfile_handler js st viewer (Some blank)
          = ([], Inl (ApiError 400 ''Username is required to get Profile'')))
   \<and> (trim js name \<noteq> [] \<and> (\<forall>u \<in> set (users st). username u \<noteq> toLowerCase js name) \<longrightarrow>
        getUserChannelProfile_handler js st viewer (Some name)
          = ([StoreCall ''User'' ''aggregate''], Inl (ApiError 404 ''Channel not found'')))"
proof -
  have "find (\<lambda>u. username u = toLowerCase js name) (users st) = None"
    if "\<forall>u \<in> set (users st). username u \<noteq> toLowerCase js name"
    using that by (simp add: find_None_iff)
  then show ?thesis
    by (auto simp: getUserChannelProfile_handler_result)
       (simp_all add: getUserChannelProfile_handler_def throw_def)
qed

theorem channel_profile_rejections_witness:
  "trim asciiRuntime ''   '' = []
   \<and> getUserChannelProfile_handler asciiRuntime historyStore None (Some ''   '')
       = ([], Inl (ApiError 400 ''Username is required to get Profile''))
   \<and> trim asciiRuntime ''Zed'' \<noteq> []
   \<and> list_all (\<lambda>u. username u \<noteq> toLowerCase asciiRuntime ''Zed'') (users historyStore)
   \<and> getUserChannelProfile_handler asciiRuntime historyStore None (Some ''Zed'')
       = ([StoreCall ''User'' ''aggregate''], Inl (ApiError 404 ''Channel not found''))"
proof -
  have h1: "trim asciiRuntime ''   '' = []"
    by code_simp
  have h2: "trim asciiRuntime ''Zed'' \<noteq> []"
    by code_simp
  have h3: "list_all (\<lambda>u. username u \<noteq> toLowerCase asciiRuntime ''Zed'') (users historyStore)"
    by code_simp
  have h3': "\<forall>u \<in> set (users historyStore). username u \<noteq> toLowerCase asciiRuntime ''Zed''"
    using h3 by (simp only: list_all_iff)
  note t = channel_profile_rejections [of asciiRuntime historyStore None "''   ''" "''Zed''"]
  note r1 = t [THEN conjunct2, THEN conjunct1, THEN mp, OF h1]
  note r2 = t [THEN conjunct2, THEN conjunct2, THEN mp, OF conjI [OF h2 h3']]
  show ?thesis
    by (intro conjI h1 h2 h3 r1 r2)
qed

section \<open>The watch history\<close>

lemma joined_owner:
  "join_order st (filter (\<lambda>f. joins (Some (BOid a)) (map_of f ''_id'')) (collection st ''users''))
     = map user_doc
         (sort_key (\<lambda>u. lookupRank st (user_doc u)) (filter (\<lambda>u. user_id u = a) (users st)))"
  by (simp add: collection_def filter_map comp_def user_doc_fields joins_oid_oid join_order_map)

lemma joined_history:
  "join_order st (filter (\<lambda>f. joins (Some (BArr (map BOid (watchHistory u)))) (map_of f ''_id''))
                    (collection st ''videos''))
     = map video_doc (yielded_videos st u)"
  by (simp add: collection_def filter_map comp_def video_doc_fields joins_history join_order_map
      yielded_videos_def watched_videos_def)

lemma project_owner:
  "pipeline [project_stage [''fullName'', ''username'', ''avatar'']] (map user_doc us)
     = Inr (map owner_projection us)"
  by (simp add: project_stage_def user_doc_def owner_projection_def optional_field_def
      split: option.splits)

text \<open>
  The sub-pipeline of the history lookup: every joined video gets the projection of its
  owner, or loses the owner field when no user has the owner's id.
\<close>

lemma enrich_videos:
  "pipeline
     [lookup_stage st ''users'' ''owner'' ''_id'' ''owner''
        (pipeline [project_stage [''fullName'', ''username'', ''avatar'']]),
      addFields_stage [(''owner'', first_op (field_path ''owner''))]]
     (map video_doc vs)
   = Inr (map (enriched_video st) vs)"
proof -
  let ?owners = "\<lambda>v. map owner_projection
                   (sort_key (\<lambda>u. lookupRank st (user_doc u))
                      (filter (\<lambda>u. user_id u = owner v) (users st)))"
  let ?e = "\<lambda>v. [(''_id'', BOid (video_id v)),
                  (''owner'', BArr (map BDoc (?owners v))),
                  (''title'', BStr (title v)),
                  (''description'', BStr (description v)),
                  (''fileURL'', BStr (fileURL v)),
                  (''views'', BNum (views v)),
                  (''createdAt'', BDate (createdAt v))]"
  have s1: "lookup_stage st ''users'' ''owner'' ''_id'' ''owner''
              (pipeline [project_stage [''fullName'', ''username'', ''avatar'']])
              (map video_doc vs) = Inr (map ?e vs)"
    unfolding lookup_stage_def
  proof (rule each_doc_map)
    fix v
    have "map_of (video_doc v) ''owner'' = Some (BOid (owner v))"
      by (simp add: video_doc_fields)
    then show "(case pipeline [project_stage [''fullName'', ''username'', ''avatar'']]
                 (join_order st
                    (filter (\<lambda>f. joins (map_of (video_doc v) ''owner'') (map_of f ''_id''))
                       (collection st ''users''))) of
             Inl e \<Rightarrow> Inl e
           | Inr js \<Rightarrow> Inr (set_field ''owner'' (Some (BArr (map BDoc js))) (video_doc v)))
          = Inr (?e v)"
      by (simp only: joined_owner project_owner sum.case) (simp add: video_doc_def)
  qed
  have s2: "addFields_stage [(''owner'', first_op (field_path ''owner''))] (map ?e vs)
              = Inr (map (enriched_video st) vs)"
    unfolding addFields_stage_def
    by (rule each_doc_map)
       (simp add: first_op_def field_path_def enriched_video_def owner_of_def
          optional_field_def split: list.splits)
  show ?thesis
    by (simp only: pipeline.simps s1 s2 sum.case)
qed

lemma watchHistory_pipeline_result:
  "pipeline (watchHistory_pipeline st matchId) (collection st ''users'')
     = Inr (map (\<lambda>u. set_field ''watchHistory''
                        (Some (BArr (map BDoc (map (enriched_video st) (yielded_videos st u)))))
                        (user_doc u))
              (filter (\<lambda>u. user_id u = matchId) (users st)))"
proof -
  let ?us = "filter (\<lambda>u. user_id u = matchId) (users st)"
  have s1: "match_stage [(''_id'', Eq (BOid matchId))] (collection st ''users'')
              = Inr (map user_doc ?us)"
    by (simp add: match_stage_def collection_def filter_map comp_def matches_def user_doc_fields)
  have s2: "lookup_stage st ''videos'' ''watchHistory'' ''_id'' ''watchHistory''
              (pipeline
                 [lookup_stage st ''users'' ''owner'' ''_id'' ''owner''
                    (pipeline [project_stage [''fullName'', ''username'', ''avatar'']]),
                  addFields_stage [(''owner'', first_op (field_path ''owner''))]])
              (map user_doc ?us)
            = Inr (map (\<lambda>u. set_field ''watchHistory''
                        (Some (BArr (map BDoc (map (enriched_video st) (yielded_videos st u)))))
                        (user_doc u)) ?us)"
    by (rule lookup_stage_map)
       (simp only: user_doc_fields joined_history enrich_videos)
  show ?thesis
    by (simp only: watchHistory_pipeline_def pipeline.simps s1 s2 sum.case)
qed

text \<open>
  What \<open>getWatchHistory\<close> does, for every store and every \<open>req.user._id\<close>. A value without the
  shape of an identifier makes the constructor throw before any store call. Otherwise there
  is one aggregate call and a response of status 200 with the enriched videos of the first
  user with this id, in the order the store yields them, or with the empty array when there
  is no such user.
\<close>

lemma getWatchHistory_handler_malformed:
  "\<not> isValidObjectId env userId \<Longrightarrow>
     getWatchHistory_handler env st userId
       = ([], Inl (BSONError ''input must be a 24 character hex string, 12 byte Uint8Array, or an integer''))"
  by (simp add: getWatchHistory_handler_def new_ObjectId_def throw_def await_def)

lemma getWatchHistory_handler_result:
  assumes "isValidObjectId env userId"
  shows "getWatchHistory_handler env st userId
     = ([StoreCall ''User'' ''aggregate''],
        Inr (Response 200
               (ApiResponse 200
                  (BArr (case find (\<lambda>u. user_id u = toObjectId env userId) (users st) of
                           None \<Rightarrow> []
                         | Some u \<Rightarrow> map BDoc (map (enriched_video st) (yielded_videos st u))))
                  (BStr ''Watch History Fetched Successfully''))))"
  using assms
  by (simp add: getWatchHistory_handler_def new_ObjectId_def User_aggregate_def store_query_def
      await_def ret_def watchHistory_pipeline_result find_filter_conv first_field_def or_else_def
      map_of_set_field del: set_field.simps split: list.splits)

lemma watch_history_documents:
  assumes "isValidObjectId env userId"
  shows "documents_of (second_argument (getWatchHistory_handler env st userId))
     = (case find (\<lambda>u. user_id u = toObjectId env userId) (users st) of
          None \<Rightarrow> []
        | Some u \<Rightarrow> map (enriched_video st) (yielded_videos st u))"
proof (cases "find (\<lambda>u. user_id u = toObjectId env userId) (users st)")
  case None
  then show ?thesis
    by (simp add: getWatchHistory_handler_result [OF assms] second_argument_def)
next
  case (Some u)
  then have "second_argument (getWatchHistory_handler env st userId)
               = Some (BArr (map (BDoc \<circ> enriched_video st) (yielded_videos st u)))"
    by (simp add: getWatchHistory_handler_result [OF assms] second_argument_def)
  then show ?thesis
    using Some by (simp only: documents_of_docs option.case)
qed

lemma mset_yielded_videos: "mset (yielded_videos st u) = mset (watched_videos st u)"
  by (simp add: yielded_videos_def)

lemma enriched_video_id: "map_of (enriched_video st v) ''_id'' = Some (BOid (video_id v))"
  by (simp add: enriched_video_def)

lemma enriched_video_owner:
  "map_of (enriched_video st v) ''owner''
     = map_option (BDoc \<circ> owner_projection) (owner_of st v)"
  by (simp add: enriched_video_def optional_field_def map_add_def split: option.splits)

lemma owner_of_None:
  "(owner_of st v = None) = (find (\<lambda>w. user_id w = owner v) (users st) = None)"
  by (simp add: owner_of_def find_filter_conv sort_key_Nil_iff split: list.splits)

text \<open>
  Claim C3, as amended. For a user with a watch history, \<open>getWatchHistory\<close> sends the enriched
  videos whose ids occur in the \<open>watchHistory\<close> list, each stored video once, in the order in
  which the store yields them, which need not be the order of the list; an owner sub-object,
  where present, contains only \<open>_id\<close>, fullName, username and avatar, so neither password nor
  email.
\<close>

theorem watch_history_as_yielded:
  assumes "isValidObjectId env userId"
    and "find (\<lambda>u. user_id u = toObjectId env userId) (users st) = Some u"
  shows "mset (documents_of (second_argument (getWatchHistory_handler env st userId)))
           = mset (map (enriched_video st)
                     (filter (\<lambda>v. video_id v \<in> set (watchHistory u)) (videos st)))
         \<and> mset (returned_ids (documents_of (second_argument (getWatchHistory_handler env st userId))))
           = mset (map (\<lambda>v. Some (BOid (video_id v)))
                     (filter (\<lambda>v. video_id v \<in> set (watchHistory u)) (videos st)))
         \<and> (\<forall>d \<in> set (documents_of (second_argument (getWatchHistory_handler env st userId))).
               set (fields_of (map_of d ''owner''))
                 \<subseteq> {''_id'', ''fullName'', ''username'', ''avatar''})"
proof -
  have docs: "documents_of (second_argument (getWatchHistory_handler env st userId))
                = map (enriched_video st) (yielded_videos st u)"
    using assms by (simp add: watch_history_documents)
  have owner_fields: "set (fields_of (map_of (enriched_video st v) ''owner''))
                        \<subseteq> {''_id'', ''fullName'', ''username'', ''avatar''}" for v
    by (cases "owner_of st v")
       (simp_all add: enriched_video_owner owner_projection_def field_names_def)
  have m0: "mset (yielded_videos st u)
              = mset (filter (\<lambda>v. video_id v \<in> set (watchHistory u)) (videos st))"
    using mset_yielded_videos [of st u] by (simp only: watched_videos_def)
  have m: "mset (map f (yielded_videos st u))
             = mset (map f (filter (\<lambda>v. video_id v \<in> set (watchHistory u)) (videos st)))" for f
    by (simp only: mset_map m0)
  have ids: "returned_ids (map (enriched_video st) vs) = map (\<lambda>v. Some (BOid (video_id v))) vs"
    for vs
    by (simp add: returned_ids_def enriched_video_id comp_def)
  have p: "\<forall>d \<in> set (map (enriched_video st) (yielded_videos st u)).
             set (fields_of (map_of d ''owner''))
               \<subseteq> {''_id'', ''fullName'', ''username'', ''avatar''}"
    using owner_fields by auto
  show ?thesis
    unfolding docs ids
    by (intro conjI m p)
qed

theorem watch_history_as_yielded_witness:
  "isValidObjectId lenientLibrary (hexId CHR ''e'')
   \<and> find (\<lambda>u. user_id u = toObjectId lenientLibrary (hexId CHR ''e'')) (users historyStore)
       = Some (exampleUser CHR ''e'' ''erin'' [hexId CHR ''4'', hexId CHR ''1''])
   \<and> mset (returned_ids (documents_of (second_argument
              (getWatchHistory_handler lenientLibrary historyStore (hexId CHR ''e'')))))
     = mset [Some (BOid (hexId CHR ''1'')), Some (BOid (hexId CHR ''4''))]"
proof -
  have v: "isValidObjectId lenientLibrary (hexId CHR ''e'')"
    by code_simp
  have h: "find (\<lambda>u. user_id u = toObjectId lenientLibrary (hexId CHR ''e'')) (users historyStore)
             = Some (exampleUser CHR ''e'' ''erin'' [hexId CHR ''4'', hexId CHR ''1''])"
    by code_simp
  have ev: "map (\<lambda>v. Some (BOid (video_id v)))
              (filter (\<lambda>v. video_id v \<in> set (watchHistory
                  (exampleUser CHR ''e'' ''erin'' [hexId CHR ''4'', hexId CHR ''1''])))
                (videos historyStore))
            = [Some (BOid (hexId CHR ''1'')), Some (BOid (hexId CHR ''4''))]"
    by code_simp
  note t = watch_history_as_yielded [OF v h, THEN conjunct2, THEN conjunct1]
  show ?thesis
    by (intro conjI v h trans [OF t arg_cong [OF ev, of mset]])
qed

text \<open>
  Claim C3, as stated, fails: the user's \<open>watchHistory\<close> list is video 3 and then video 1,
  both videos exist with known owners, and on a store that yields joined documents in stored
  order the handler sends video 1 and then video 3; each owner sub-object carries \<open>_id\<close>
  besides the three fields the claim allows.
\<close>

theorem watch_history_order_counterexample:
  "watchHistory (hd (users historyStore)) = [hexId CHR ''3'', hexId CHR ''1'']
   \<and> user_id (hd (users historyStore)) = hexId CHR ''a''
   \<and> returned_ids
       (documents_of (second_argument
          (getWatchHistory_handler lenientLibrary historyStore (hexId CHR ''a''))))
     = [Some (BOid (hexId CHR ''1'')), Some (BOid (hexId CHR ''3''))]
   \<and> owner_field_names
       (documents_of (second_argument
          (getWatchHistory_handler lenientLibrary historyStore (hexId CHR ''a''))))
     = [[''_id'', ''username'', ''fullName'', ''avatar''],
        [''_id'', ''username'', ''fullName'', ''avatar'']]"
  by code_simp

text \<open>
  The order sent is the store's: under the other plan the same collections and the same
  request give video 3 and then video 1.
\<close>

lemma watch_history_other_plan:
  "returned_ids
       (documents_of (second_argument
          (getWatchHistory_handler lenientLibrary historyStoreOtherPlan (hexId CHR ''a''))))
     = [Some (BOid (hexId CHR ''3'')), Some (BOid (hexId CHR ''1''))]"
  by code_simp

text \<open>
  Claim C10. For a \<open>req.user._id\<close> that has the shape of an identifier, \<open>getWatchHistory\<close> never
  fails on missing data: it answers with status 200 and an array. The array is empty when no
  user has the id and when the user's history is empty; otherwise it holds one document for
  every watched video of the store, and a video whose owner is no user of the store is sent
  without an owner field.
\<close>

theorem watch_history_never_fails:
  assumes "isValidObjectId env userId"
  shows "(\<exists>xs. getWatchHistory_handler env st userId
            = ([StoreCall ''User'' ''aggregate''],
               Inr (Response 200
                      (ApiResponse 200 (BArr xs) (BStr ''Watch History Fetched Successfully'')))))
   \<and> (find (\<lambda>u. user_id u = toObjectId env userId) (users st) = None \<longrightarrow>
        second_argument (getWatchHistory_handler env st userId) = Some (BArr []))
   \<and> (\<forall>u. find (\<lambda>u. user_id u = toObjectId env userId) (users st) = Some u
            \<and> watchHistory u = [] \<longrightarrow>
        second_argument (getWatchHistory_handler env st userId) = Some (BArr []))
   \<and> (\<forall>u. find (\<lambda>u. user_id u = toObjectId env userId) (users st) = Some u \<longrightarrow>
        length (documents_of (second_argument (getWatchHistory_handler env st userId)))
          = length (watched_videos st u)
        \<and> (\<forall>v \<in> set (watched_videos st u).
              \<exists>d \<in> set (documents_of (second_argument (getWatchHistory_handler env st userId))).
                map_of d ''_id'' = Some (BOid (video_id v))
                \<and> (find (\<lambda>w. user_id w = owner v) (users st) = None \<longrightarrow>
                     map_of d ''owner'' = None)))"
proof -
  note r = getWatchHistory_handler_result [OF assms, of st]
  have c1: "\<exists>xs. getWatchHistory_handler env st userId
            = ([StoreCall ''User'' ''aggregate''],
               Inr (Response 200
                      (ApiResponse 200 (BArr xs) (BStr ''Watch History Fetched Successfully''))))"
    unfolding r by simp
  have c2: "second_argument (getWatchHistory_handler env st userId) = Some (BArr [])"
    if "find (\<lambda>u. user_id u = toObjectId env userId) (users st) = None"
    using that by (simp add: r second_argument_def)
  have c3: "second_argument (getWatchHistory_handler env st userId) = Some (BArr [])"
    if "find (\<lambda>u. user_id u = toObjectId env userId) (users st) = Some u" "watchHistory u = []"
    for u
    using that by (simp add: r second_argument_def yielded_videos_def watched_videos_def)
  have c4: "length (documents_of (second_argument (getWatchHistory_handler env st userId)))
              = length (watched_videos st u)
            \<and> (\<forall>v \<in> set (watched_videos st u).
              \<exists>d \<in> set (documents_of (second_argument (getWatchHistory_handler env st userId))).
                map_of d ''_id'' = Some (BOid (video_id v))
                \<and> (find (\<lambda>w. user_id w = owner v) (users st) = None \<longrightarrow>
                     map_of d ''owner'' = None))"
    if "find (\<lambda>u. user_id u = toObjectId env userId) (users st) = Some u" for u
  proof -
    have docs: "documents_of (second_argument (getWatchHistory_handler env st userId))
                  = map (enriched_video st) (yielded_videos st u)"
      using that assms by (simp add: watch_history_documents)
    have s: "set (yielded_videos st u) = set (watched_videos st u)"
      by (simp add: yielded_videos_def)
    have l: "length (yielded_videos st u) = length (watched_videos st u)"
      by (simp add: yielded_videos_def)
    show ?thesis
      unfolding docs
      by (auto simp: s l enriched_video_id enriched_video_owner owner_of_None)
  qed
  from c1 c2 c3 c4 show ?thesis
    by blast
qed

theorem watch_history_never_fails_witness:
  "isValidObjectId lenientLibrary (hexId CHR ''f'')
   \<and> find (\<lambda>u. user_id u = toObjectId lenientLibrary (hexId CHR ''f'')) (users historyStore) = None
   \<and> second_argument (getWatchHistory_handler lenientLibrary historyStore (hexId CHR ''f''))
       = Some (BArr [])
   \<and> isValidObjectId lenientLibrary (hexId CHR ''c'')
   \<and> find (\<lambda>u. user_id u = toObjectId lenientLibrary (hexId CHR ''c'')) (users historyStore)
       = Some (exampleUser CHR ''c'' ''carol'' [])
   \<and> watchHistory (exampleUser CHR ''c'' ''carol'' []) = []
   \<and> second_argument (getWatchHistory_handler lenientLibrary historyStore (hexId CHR ''c''))
       = Some (BArr [])
   \<and> isValidObjectId lenientLibrary (hexId CHR ''e'')
   \<and> find (\<lambda>u. user_id u = toObjectId lenientLibrary (hexId CHR ''e'')) (users historyStore)
       = Some (exampleUser CHR ''e'' ''erin'' [hexId CHR ''4'', hexId CHR ''1''])
   \<and> length (documents_of (second_argument
                (getWatchHistory_handler lenientLibrary historyStore (hexId CHR ''e'')))) = 2
   \<and> find (\<lambda>w. user_id w = owner (exampleVideo CHR ''4'' CHR ''f'' 1 3)) (users historyStore)
       = None
   \<and> (\<exists>d \<in> set (documents_of (second_argument
                    (getWatchHistory_handler lenientLibrary historyStore (hexId CHR ''e'')))).
         map_of d ''_id'' = Some (BOid (video_id (exampleVideo CHR ''4'' CHR ''f'' 1 3)))
         \<and> map_of d ''owner'' = None)"
proof -
  let ?erin = "exampleUser CHR ''e'' ''erin'' [hexId CHR ''4'', hexId CHR ''1'']"
  let ?four = "exampleVideo CHR ''4'' CHR ''f'' 1 3"
  have vf: "isValidObjectId lenientLibrary (hexId CHR ''f'')"
    by code_simp
  have vc: "isValidObjectId lenientLibrary (hexId CHR ''c'')"
    by code_simp
  have ve: "isValidObjectId lenientLibrary (hexId CHR ''e'')"
    by code_simp
  have f: "find (\<lambda>u. user_id u = toObjectId lenientLibrary (hexId CHR ''f'')) (users historyStore)
             = None"
    by code_simp
  have c: "find (\<lambda>u. user_id u = toObjectId lenientLibrary (hexId CHR ''c'')) (users historyStore)
             = Some (exampleUser CHR ''c'' ''carol'' [])"
    by code_simp
  have c': "watchHistory (exampleUser CHR ''c'' ''carol'' []) = []"
    by code_simp
  have e: "find (\<lambda>u. user_id u = toObjectId lenientLibrary (hexId CHR ''e'')) (users historyStore)
             = Some ?erin"
    by code_simp
  have n: "length (watched_videos historyStore ?erin) = 2"
    by code_simp
  have mem: "?four \<in> set (watched_videos historyStore ?erin)"
    by code_simp
  have o: "find (\<lambda>w. user_id w = owner ?four) (users historyStore) = None"
    by code_simp
  note r1 = watch_history_never_fails [OF vf, of historyStore, THEN conjunct2, THEN conjunct1,
              THEN mp, OF f]
  note r2 = watch_history_never_fails [OF vc, of historyStore, THEN conjunct2, THEN conjunct2,
              THEN conjunct1, THEN spec, THEN mp, OF conjI [OF c c']]
  note r3 = watch_history_never_fails [OF ve, of historyStore, THEN conjunct2, THEN conjunct2,
              THEN conjunct2, THEN spec, THEN mp, OF e]
  note r4 = trans [OF r3 [THEN conjunct1] n]
  from bspec [OF r3 [THEN conjunct2] mem] o
  have r5: "\<exists>d \<in> set (documents_of (second_argument
                    (getWatchHistory_handler lenientLibrary historyStore (hexId CHR ''e'')))).
         map_of d ''_id'' = Some (BOid (video_id ?four)) \<and> map_of d ''owner'' = None"
    by simp
  show ?thesis
    by (intro conjI vf f r1 vc c c' r2 ve e r4 o r5)
qed

section \<open>Channel statistics and channel videos\<close>

text \<open>
  Claim C9. A \<open>channelId\<close> that is not a valid identifier makes both \<open>getChannelStats\<close> and
  \<open>getChannelVideos\<close> fail with status 400, and no store call has been issued.
\<close>

theorem invalid_channelId_rejected:
  "\<not> isValidObjectId env channelId \<Longrightarrow>
     getChannelStats_handler env st channelId = ([], Inl (ApiError 400 ''Invalid channel ID''))
     \<and> getChannelVideos_handler env st channelId page limit
         = ([], Inl (ApiError 400 ''Invalid channel ID''))"
  by (simp add: getChannelStats_handler_def getChannelVideos_handler_def throw_def)

theorem invalid_channelId_rejected_witness:
  "\<not> isValidObjectId lenientLibrary ''not-an-id''
   \<and> getChannelStats_handler lenientLibrary statsStore ''not-an-id''
       = ([], Inl (ApiError 400 ''Invalid channel ID''))
   \<and> getChannelVideos_handler lenientLibrary statsStore ''not-an-id'' (Some 2) (Some 5)
       = ([], Inl (ApiError 400 ''Invalid channel ID''))"
proof -
  have h: "\<not> isValidObjectId lenientLibrary ''not-an-id''"
    by (simp add: lenientLibrary_def hexShape_def)
  from invalid_channelId_rejected [OF h, of statsStore "Some 2" "Some 5"] h
  show ?thesis by simp
qed

text \<open>
  Both handlers filter the videos on the path \<open>channel\<close>. A video document has an \<open>owner\<close>
  and no \<open>channel\<close>: sent as written the filter matches no video, and with the undeclared
  path dropped it matches every video of the store, whoever owns it.
\<close>

lemma video_channel_filter:
  "model_find env videoSchema (map video_doc vs) [(''channel'', Eq (BStr c))]
     = (if strictQuery env then map video_doc vs else [])"
  by (simp add: model_find_def videoSchema_def matches_def video_doc_fields)

lemma subscription_matches_channel:
  "matches [(''channel'', Eq (BOid a))] (subscription_doc s) = (channel s = Some a)"
  by (cases "channel s") (simp_all add: matches_def subscription_doc_fields)

lemma subscription_channel_filter:
  "model_find env subscriptionSchema (map subscription_doc ss) [(''channel'', Eq (BStr c))]
     = map subscription_doc (filter (\<lambda>s. channel s = Some (toObjectId env c)) ss)"
  by (simp add: model_find_def subscriptionSchema_def subscription_matches_channel
      filter_map comp_def)

lemma video_channel_aggregate:
  "pipeline [match_stage [(''channel'', Eq (BOid c))], group_all_sum ''totalViews'' ''views'']
     (collection st ''videos'') = Inr []"
  by (simp add: match_stage_def matches_def collection_def video_doc_fields filter_map comp_def
      group_all_sum_def)

text \<open>
  For every store and every valid \<open>channelId\<close>: where \<open>ObjectId\<close> is a class the handler
  throws after its first four store calls; elsewhere it sends \<open>totalViews\<close> 0, the number
  of the channel's subscription records as \<open>totalSubscribers\<close>, and as \<open>totalVideos\<close> either 0
  or the number of all videos of the store.
\<close>

lemma channel_stats_by_channel_path:
  assumes "isValidObjectId env channelId"
  shows "(objectIdRequiresNew env \<longrightarrow>
            getChannelStats_handler env st channelId
              = ([StoreCall ''Video'' ''countDocuments'', StoreCall ''Subscription'' ''countDocuments'',
                  StoreCall ''Video'' ''distinct'', StoreCall ''Like'' ''countDocuments''],
                 Inl (TypeError ''Class constructor ObjectId cannot be invoked without new'')))
         \<and> (\<not> objectIdRequiresNew env \<longrightarrow>
            field_of (third_argument (getChannelStats_handler env st channelId)) ''totalViews''
              = Some (BNum 0)
            \<and> field_of (third_argument (getChannelStats_handler env st channelId)) ''totalVideos''
              = Some (BNum (if strictQuery env then int (length (videos st)) else 0))
            \<and> field_of (third_argument (getChannelStats_handler env st channelId)) ''totalSubscribers''
              = Some (BNum (int (length (subscribers_of st (toObjectId env channelId))))))"
  using assms
  by (simp add: getChannelStats_handler_def Video_countDocuments_def
      Subscription_countDocuments_def Video_find_distinct_def Like_countDocuments_def
      Types_ObjectId_def Video_aggregate_def store_query_def await_def ret_def throw_def
      video_channel_aggregate video_channel_filter subscription_channel_filter
      third_argument_def first_field_def or_else_def subscribers_of_def
      del: pipeline.simps)

lemma channel_videos_by_channel_path:
  assumes "isValidObjectId env channelId" and "0 < page" and "0 < limit"
  shows "third_argument (getChannelVideos_handler env st channelId (Some page) (Some limit))
     = Some (BArr (map BDoc
         (if strictQuery env
          then take (nat limit) (drop (nat ((page - 1) * limit))
                 (sort_descending ''createdAt'' (map video_doc (videos st))))
          else [])))"
  using assms
  by (simp add: getChannelVideos_handler_def Video_find_skip_limit_sort_def store_query_def
      await_def ret_def video_channel_filter third_argument_def apply_limit_def
      sort_descending_def not_less zero_le_mult_iff)

text \<open>
  Claim C1. For a valid \<open>channelId\<close>, \<open>getChannelStats\<close> should send \<open>totalVideos\<close> equal to the
  number of videos the channel owns, \<open>totalSubscribers\<close> equal to the number of subscription
  records of the channel, and \<open>totalLikes\<close> equal to the number of likes of type video on the
  channel's videos. On the store where channel \<open>c\<close> owns one video, liked once, and has one
  subscriber, the handler sends \<open>totalSubscribers\<close> 1, but \<open>totalVideos\<close> and \<open>totalLikes\<close> 0
  when the filter is sent as written, and 2 and 2 (all videos and all their likes) when
  the undeclared path is dropped.
\<close>

theorem channel_stats_counts_evaluated:
  "field_of (third_argument (getChannelStats_handler lenientLibrary statsStore (hexId CHR ''c'')))
       ''totalVideos'' = Some (BNum 0)
   \<and> field_of (third_argument (getChannelStats_handler lenientLibrary statsStore (hexId CHR ''c'')))
       ''totalLikes'' = Some (BNum 0)
   \<and> field_of (third_argument (getChannelStats_handler strictLibrary statsStore (hexId CHR ''c'')))
       ''totalVideos'' = Some (BNum 2)
   \<and> field_of (third_argument (getChannelStats_handler strictLibrary statsStore (hexId CHR ''c'')))
       ''totalLikes'' = Some (BNum 2)
   \<and> field_of (third_argument (getChannelStats_handler lenientLibrary statsStore (hexId CHR ''c'')))
       ''totalSubscribers'' = Some (BNum 1)
   \<and> isValidObjectId lenientLibrary (hexId CHR ''c'')
   \<and> int (length (owned_videos statsStore (hexId CHR ''c''))) = 1
   \<and> int (length (spec_channel_likes statsStore (hexId CHR ''c''))) = 1
   \<and> int (length (subscribers_of statsStore (hexId CHR ''c''))) = 1"
  by code_simp

text \<open>
  Claim C8. For a valid \<open>channelId\<close>, \<open>getChannelStats\<close> should succeed with \<open>totalViews\<close> equal
  to the sum of the views of the channel's videos, and 0 for a channel without videos. On
  the store where channel \<open>c\<close> owns one video with five views, the handler sends \<open>totalViews\<close>
  0 under both treatments of the filter path, and where \<open>ObjectId\<close> is a class it throws a
  TypeError instead of answering.
\<close>

theorem channel_stats_views_evaluated:
  "field_of (third_argument (getChannelStats_handler lenientLibrary statsStore (hexId CHR ''c'')))
       ''totalViews'' = Some (BNum 0)
   \<and> field_of (third_argument (getChannelStats_handler strictLibrary statsStore (hexId CHR ''c'')))
       ''totalViews'' = Some (BNum 0)
   \<and> snd (getChannelStats_handler classLibrary statsStore (hexId CHR ''c''))
       = Inl (TypeError ''Class constructor ObjectId cannot be invoked without new'')
   \<and> isValidObjectId classLibrary (hexId CHR ''c'')
   \<and> sum_list (map views (owned_videos statsStore (hexId CHR ''c''))) = 5"
  by code_simp

text \<open>
  Claim C4. For a valid \<open>channelId\<close> and positive \<open>page\<close> and \<open>limit\<close>, \<open>getChannelVideos\<close>
  should send the channel's videos, newest first, without the first \<open>(page - 1) * limit\<close> and
  at most \<open>limit\<close> of them: page 2 with limit 5 of a channel with exactly seven videos is the
  6th and the 7th newest. On the store where channel \<open>c\<close> owns exactly seven videos and
  channel \<open>d\<close> one newer video, the handler sends no video when the filter is sent as
  written, and three videos (the 6th to 8th newest of the whole store) when the undeclared
  path is dropped.
\<close>

theorem channel_videos_page_evaluated:
  "third_argument
       (getChannelVideos_handler lenientLibrary pagingStore (hexId CHR ''c'') (Some 2) (Some 5))
     = Some (BArr [])
   \<and> returned_ids
       (documents_of (third_argument
          (getChannelVideos_handler strictLibrary pagingStore (hexId CHR ''c'') (Some 2) (Some 5))))
     = [Some (BOid (hexId CHR ''3'')), Some (BOid (hexId CHR ''2'')), Some (BOid (hexId CHR ''1''))]
   \<and> isValidObjectId lenientLibrary (hexId CHR ''c'')
   \<and> length (owned_videos pagingStore (hexId CHR ''c'')) = 7
   \<and> map video_id (spec_channel_videos pagingStore (hexId CHR ''c'') 2 5)
     = [hexId CHR ''2'', hexId CHR ''1'']"
  by code_simp

section \<open>The wrapper\<close>

text \<open>
  Claim C2. For every request handler \<open>f\<close>, \<open>asyncHandler(f)\<close> is meant to be a function that
  invokes \<open>f\<close> and routes a rejection to the error middleware. The body builds that function
  and does not return it: \<open>asyncHandler(f)\<close> evaluates to \<open>undefined\<close> for every \<open>f\<close>, and so
  does every exported handler.
\<close>

theorem asyncHandler_returns_undefined:
  "asyncHandler requestHandler = Undefined
   \<and> getChannelStats env st = Undefined
   \<and> getChannelVideos env st = Undefined
   \<and> getUserChannelProfile js st = Undefined
   \<and> getWatchHistory env st = Undefined"
  by (simp add: asyncHandler_def getChannelStats_def getChannelVideos_def
      getUserChannelProfile_def getWatchHistory_def)

end
